theory Spec2Isabelle
  imports Complex_Main "HOL-Library.Sublist"
begin

section \<open>The backend module \<^verbatim>\<open>backend/main.py\<close>\<close>

text \<open>
  The module wires a tracing pipeline and a logging pipeline onto one shared resource,
  computes the collector endpoints from the environment, and registers three request
  handlers. It is embedded as state passing: the module's globals and the part of the
  world it touches (file system, log records produced by \<^verbatim>\<open>logger\<close>, standard
  output) form the state, and every handler maps a state to its result and the new state.
\<close>

subsection \<open>Python values, exceptions and the file system\<close>

datatype py_error = ZeroDivisionError | RuntimeError

text \<open>The values the handlers return: dict literals, a tuple, and a \<^verbatim>\<open>FileResponse\<close>
  object holding the path it was built from.\<close>

datatype pyval =
    PNone
  | PInt int
  | PStr string
  | PDict "(string \<times> pyval) list"
  | PTuple "pyval list"
  | PFileResponse string

type_synonym bytes = string

datatype fs_node = RegularFile bytes | Directory

type_synonym filesystem = "string \<Rightarrow> fs_node option"

text \<open>\<^verbatim>\<open>os.path.exists(p)\<close>: true for any node at the path.\<close>

definition path_exists :: "filesystem \<Rightarrow> string \<Rightarrow> bool" where
  "path_exists fs p = (case fs p of None \<Rightarrow> False | Some _ \<Rightarrow> True)"

text \<open>\<^verbatim>\<open>os.getenv(key, default)\<close> over an environment.\<close>

definition getenv :: "(string \<Rightarrow> string option) \<Rightarrow> string \<Rightarrow> string \<Rightarrow> string" where
  "getenv env k dflt = (case env k of None \<Rightarrow> dflt | Some v \<Rightarrow> v)"

text \<open>\<^verbatim>\<open>posixpath.dirname\<close>: everything up to and including the last slash, with
  trailing slashes removed unless the head consists of slashes only.\<close>

definition is_sep :: "char \<Rightarrow> bool" where
  "is_sep c = (c = CHR ''/'')"

definition rstrip_sep :: "string \<Rightarrow> string" where
  "rstrip_sep s = rev (dropWhile is_sep (rev s))"

definition dirname :: "string \<Rightarrow> string" where
  "dirname p =
     (let head = rev (dropWhile (\<lambda>c. \<not> is_sep c) (rev p))
      in if head \<noteq> [] \<and> head \<noteq> replicate (length head) (CHR ''/'')
         then rstrip_sep head else head)"

text \<open>\<^verbatim>\<open>posixpath.join\<close>: an absolute component restarts the path; otherwise the
  component is appended, after a slash unless the path is empty or ends in one.\<close>

definition join_step :: "string \<Rightarrow> string \<Rightarrow> string" where
  "join_step path b =
     (if b \<noteq> [] \<and> is_sep (hd b) then b
      else if path = [] \<or> is_sep (last path) then path @ b
      else path @ ''/'' @ b)"

definition join :: "string \<Rightarrow> string list \<Rightarrow> string" where
  "join a ps = foldl join_step a ps"

text \<open>True division \<^verbatim>\<open>a / b\<close> on integers: a zero divisor raises. The quotient is a
  float in Python; the module only ever divides by the literal zero and never uses the
  quotient, so its rounding is not modelled.\<close>

definition true_div :: "int \<Rightarrow> int \<Rightarrow> py_error + real" where
  "true_div a b = (if b = 0 then Inl ZeroDivisionError else Inr (real_of_int a / real_of_int b))"

subsection \<open>The standard logger\<close>

text \<open>\<^verbatim>\<open>logger = logging.getLogger(__name__)\<close>. The module never sets a level, so the
  logger inherits the root logger's default, \<^verbatim>\<open>WARNING\<close>. A call below the effective
  level creates no record. With \<^verbatim>\<open>exc_info=True\<close> the record takes the exception
  being handled at the call (\<^verbatim>\<open>sys.exc_info()\<close>).\<close>

definition WARNING :: nat where "WARNING = 30"
definition ERROR :: nat where "ERROR = 40"

definition logger_level :: nat where "logger_level = WARNING"

record log_record =
  levelno :: nat
  msg :: string
  extra :: "(string \<times> string) list"
  exc_info :: "py_error option"

definition make_record ::
  "nat \<Rightarrow> string \<Rightarrow> bool \<Rightarrow> py_error option \<Rightarrow> (string \<times> string) list \<Rightarrow> log_record" where
  "make_record lvl m with_exc handling ex =
     \<lparr>levelno = lvl, msg = m, extra = ex,
      exc_info = (if with_exc then handling else None)\<rparr>"

definition logger_log ::
  "nat \<Rightarrow> string \<Rightarrow> bool \<Rightarrow> py_error option \<Rightarrow> (string \<times> string) list \<Rightarrow>
   log_record list \<Rightarrow> log_record list" where
  "logger_log lvl m with_exc handling ex recs =
     (if logger_level \<le> lvl then recs @ [make_record lvl m with_exc handling ex] else recs)"

subsection \<open>Module globals\<close>

record resource =
  attributes :: "(string \<times> string) list"

record exporter =
  endpoint :: string

text \<open>A provider holds the resource it was constructed with and the exporters of the
  batch processors added to it.\<close>

record provider =
  prov_resource :: resource
  processors :: "exporter list"

record globals =
  g_resource :: resource
  alloy_host :: string
  trace_exporter :: exporter
  trace_provider :: provider
  log_exporter :: exporter
  logger_provider :: provider
  frontend_file_path :: string

record state =
  globs :: globals
  fs :: filesystem
  logs :: "log_record list"
  stdout :: "string list"

definition the_resource :: resource where
  "the_resource =
     \<lparr>attributes = [(''service.name'', ''fastapi-backend''), (''environment'', ''local-dev'')]\<rparr>"

definition add_processor :: "provider \<Rightarrow> exporter \<Rightarrow> provider" where
  "add_processor p e = p\<lparr>processors := processors p @ [e]\<rparr>"

definition span_endpoint :: "string \<Rightarrow> string" where
  "span_endpoint h = ''http://'' @ h @ '':4319/v1/traces''"

definition log_endpoint :: "string \<Rightarrow> string" where
  "log_endpoint h = ''http://'' @ h @ '':4319/v1/logs''"

text \<open>The module body up to the creation of the application (lines 23 to 69): \<open>env\<close>
  is the process environment and \<open>file\<close> the module's \<^verbatim>\<open>__file__\<close>.\<close>

definition module_globals :: "(string \<Rightarrow> string option) \<Rightarrow> string \<Rightarrow> globals" where
  "module_globals env file =
     (let res = the_resource;
          tp = \<lparr>prov_resource = res, processors = []\<rparr>;
          host = getenv env ''ALLOY_HOST'' ''alloy'';
          te = \<lparr>endpoint = span_endpoint host\<rparr>;
          tp = add_processor tp te;
          lp = \<lparr>prov_resource = res, processors = []\<rparr>;
          le = \<lparr>endpoint = log_endpoint host\<rparr>;
          lp = add_processor lp le
      in \<lparr>g_resource = res, alloy_host = host, trace_exporter = te, trace_provider = tp,
          log_exporter = le, logger_provider = lp,
          frontend_file_path = join (dirname file) [''frontend'', ''index.html'']\<rparr>)"

text \<open>Importing the module (lines 23 to 74): the globals are built, and when the frontend
  file is missing one error is logged and one line is printed.\<close>

definition module_init ::
  "(string \<Rightarrow> string option) \<Rightarrow> string \<Rightarrow> filesystem \<Rightarrow> state" where
  "module_init env file files =
     (let g = module_globals env file; p = frontend_file_path g
      in if \<not> path_exists files p
         then \<lparr>globs = g, fs = files,
               logs = logger_log ERROR (''Frontend file not found at: '' @ p) False None [] [],
               stdout = [''Error: Frontend file not found at: '' @ p]\<rparr>
         else \<lparr>globs = g, fs = files, logs = [], stdout = []\<rparr>)"

subsection \<open>The request handlers\<close>

text \<open>Each handler returns its result (a raised exception or the returned value) and
  the state it leaves.\<close>

definition api_root :: "state \<Rightarrow> (py_error + pyval) \<times> state" where
  "api_root s =
     (let s1 = s\<lparr>logs := logger_log WARNING ''API root endpoint (/api/root) was called''
                   False None [(''client.ip'', ''127.0.0.1'')] (logs s)\<rparr>
      in (Inr (PDict [(''message'', PStr ''Hello World. Log and Trace sent.'')]), s1))"

text \<open>The \<^verbatim>\<open>try\<close> statement of \<^verbatim>\<open>make_error\<close>: an exception of the body that is a
  \<^verbatim>\<open>ZeroDivisionError\<close> enters the handler clause, any other propagates, and a body
  that completes falls through to the end of the function, which returns \<^verbatim>\<open>None\<close>.\<close>

definition make_error :: "state \<Rightarrow> (py_error + pyval) \<times> state" where
  "make_error s =
     (case true_div 1 0 of
        Inr x \<Rightarrow> (Inr PNone, s)
      | Inl e \<Rightarrow>
          (if e = ZeroDivisionError
           then (let s1 = s\<lparr>logs := logger_log ERROR ''A simulated error occurred''
                               True (Some e) [(''error.type'', ''ZeroDivisionError'')] (logs s)\<rparr>
                 in (Inr (PDict [(''message'', PStr ''Error log and trace span sent.'')]), s1))
           else (Inl e, s)))"

definition serve_frontend :: "state \<Rightarrow> (py_error + pyval) \<times> state" where
  "serve_frontend s =
     (let p = frontend_file_path (globs s)
      in if \<not> path_exists (fs s) p
         then (let s1 = s\<lparr>logs := logger_log ERROR (''Frontend file '' @ p @ '' not found.'')
                             False None [] (logs s)\<rparr>
               in (Inr (PTuple [PDict [(''error'', PStr ''Frontend not found'')], PInt 404]), s1))
         else (Inr (PFileResponse p), s))"

subsection \<open>Requests\<close>

text \<open>
  The three routes are registered with \<^verbatim>\<open>@app.get(path)\<close> and nothing else: no status
  code and no response class. For such a route the framework sends a returned response
  object as it is, and any other returned value as its JSON encoding with the route's
  default status 200; a tuple is a value like any other and is encoded as an array. A
  \<^verbatim>\<open>FileResponse\<close> sends the bytes of the regular file at its path with status 200,
  and fails with a \<^verbatim>\<open>RuntimeError\<close> when there is none at that moment. An exception
  that leaves a handler is answered with status 500.
\<close>

datatype body = JsonBody pyval | FileBody bytes | TextBody string

record http_response =
  status :: nat
  content :: body

definition server_error :: http_response where
  "server_error = \<lparr>status = 500, content = TextBody ''Internal Server Error''\<rparr>"

fun render :: "filesystem \<Rightarrow> pyval \<Rightarrow> http_response" where
  "render files (PFileResponse p) =
     (case files p of
        Some (RegularFile bs) \<Rightarrow> \<lparr>status = 200, content = FileBody bs\<rparr>
      | Some Directory \<Rightarrow> server_error
      | None \<Rightarrow> server_error)"
| "render files v = \<lparr>status = 200, content = JsonBody v\<rparr>"

definition respond :: "filesystem \<Rightarrow> (py_error + pyval) \<Rightarrow> http_response" where
  "respond files r = (case r of Inl e \<Rightarrow> server_error | Inr v \<Rightarrow> render files v)"

datatype route = ApiRoot | Error | Root

definition handler :: "route \<Rightarrow> state \<Rightarrow> (py_error + pyval) \<times> state" where
  "handler r = (case r of ApiRoot \<Rightarrow> api_root | Error \<Rightarrow> make_error | Root \<Rightarrow> serve_frontend)"

definition handle_request :: "route \<Rightarrow> state \<Rightarrow> http_response \<times> state" where
  "handle_request r s = (let (res, s1) = handler r s in (respond (fs s1) res, s1))"

text \<open>What happens to the running process: a request arrives, or the file system is
  changed from outside.\<close>

datatype event = Request route | FsChange filesystem

fun step :: "state \<Rightarrow> event \<Rightarrow> state" where
  "step s (Request r) = snd (handle_request r s)"
| "step s (FsChange files) = s\<lparr>fs := files\<rparr>"

definition run :: "event list \<Rightarrow> state \<Rightarrow> state" where
  "run evs s = foldl step s evs"

section \<open>The telemetry pipelines\<close>

text \<open>
  The module constructs a \<^verbatim>\<open>BatchSpanProcessor\<close> and a \<^verbatim>\<open>BatchLogRecordProcessor\<close>
  (lines 42 to 44 and 58), registers the providers (lines 45 and 59) and instruments the
  application (line 80). What these objects do is the telemetry SDK's code, which is not
  part of the module; this section models it from the specification (its sections 2, 3
  and 4.2). The module has no statement that attaches \<^verbatim>\<open>logger\<close> to
  \<^verbatim>\<open>logger_provider\<close>: line 60 takes a logger of the standard library and no handler is
  ever added to it. So the records the module logs are not handed to the log pipeline,
  whose queue has no producer in the module.
\<close>

subsection \<open>Batch queue\<close>

text \<open>
  Modelled from the spec: the batch queue of a pipeline (the SDK's batch processor, not
  in the source). It is an ordered, bounded buffer of pending records. The bound and the
  size of a batch are parameters, as the module passes none. \<open>exported\<close> lists the
  batches the collector has received, in order.
\<close>

record 'a batch_queue =
  capacity :: nat
  batch_size :: nat
  pending :: "'a list"
  exported :: "'a list list"

definition new_queue :: "nat \<Rightarrow> nat \<Rightarrow> 'a batch_queue" where
  "new_queue cap n = \<lparr>capacity = cap, batch_size = n, pending = [], exported = []\<rparr>"

text \<open>
  Modelled from the spec: the producer's append (not in the source). The buffer is
  append-only and bounded: a record is added at the end, and a record offered to a full
  buffer is not admitted.
\<close>

definition enqueue :: "'a \<Rightarrow> 'a batch_queue \<Rightarrow> 'a batch_queue" where
  "enqueue x q =
     (if length (pending q) < capacity q then q\<lparr>pending := pending q @ [x]\<rparr> else q)"

text \<open>
  Modelled from the spec: \<^verbatim>\<open>flush(queue)\<close> (not in the source). The background flush
  takes the next batch from the front of the buffer and sends it to the collector; on a
  transport failure the batch is dropped, not retried. Whether it was triggered by size
  or by time makes no difference to what it does, so a flush is an event that may happen
  at any moment.
\<close>

definition flush :: "bool \<Rightarrow> 'a batch_queue \<Rightarrow> 'a batch_queue" where
  "flush reachable q =
     (if pending q = [] then q
      else q\<lparr>pending := drop (batch_size q) (pending q),
             exported := (if reachable then exported q @ [take (batch_size q) (pending q)]
                          else exported q)\<rparr>)"

text \<open>Producers and the flush task interleave: a run of a queue is a sequence of
  offers and flushes, each flush with the collector reachable or not.\<close>

datatype 'a queue_event = Offer 'a | Flush bool

fun queue_step :: "'a batch_queue \<Rightarrow> 'a queue_event \<Rightarrow> 'a batch_queue" where
  "queue_step q (Offer x) = enqueue x q"
| "queue_step q (Flush reachable) = flush reachable q"

definition queue_run :: "'a queue_event list \<Rightarrow> 'a batch_queue \<Rightarrow> 'a batch_queue" where
  "queue_run evs q = foldl queue_step q evs"

text \<open>The records offered during a run, in order.\<close>

fun offered :: "'a queue_event list \<Rightarrow> 'a list" where
  "offered [] = []"
| "offered (Offer x # evs) = x # offered evs"
| "offered (Flush b # evs) = offered evs"

text \<open>Everything a queue still accounts for: what it has exported, then what is
  pending.\<close>

definition held :: "'a batch_queue \<Rightarrow> 'a list" where
  "held q = concat (exported q) @ pending q"

subsection \<open>Spans and log records\<close>

text \<open>
  Modelled from the spec: the span and the log record of the pipelines (SDK types, not in
  the source). A span has its two identifiers and carries the resource of the provider
  that made it. A log record of the log pipeline has a severity, a message, attributes,
  the identifiers of the span that was active at its emission, if any, and the resource
  of its provider.
\<close>

record span_context =
  trace_id :: nat
  span_id :: nat

record span =
  sp_context :: span_context
  sp_resource :: resource

record telemetry_log =
  severity :: nat
  log_body :: string
  log_attributes :: "(string \<times> string) list"
  log_exception :: "py_error option"
  log_trace_id :: "nat option"
  log_span_id :: "nat option"
  log_resource :: resource

text \<open>
  Modelled from the spec: the state of the two pipelines, \<^verbatim>\<open>start_span\<close> and
  \<^verbatim>\<open>end_span\<close> (not in the source). \<^verbatim>\<open>start_span\<close> makes the span active, on top of
  the spans already active; \<^verbatim>\<open>end_span\<close> takes the span from the active ones and
  enqueues it on the span queue. Neither sends anything.
\<close>

record telemetry =
  active_spans :: "span_context list"
  span_queue :: "span batch_queue"
  log_queue :: "telemetry_log batch_queue"

definition new_telemetry :: "nat \<Rightarrow> nat \<Rightarrow> telemetry" where
  "new_telemetry cap n =
     \<lparr>active_spans = [], span_queue = new_queue cap n, log_queue = new_queue cap n\<rparr>"

definition start_span :: "span_context \<Rightarrow> telemetry \<Rightarrow> telemetry" where
  "start_span c t = t\<lparr>active_spans := c # active_spans t\<rparr>"

definition end_span :: "span \<Rightarrow> telemetry \<Rightarrow> telemetry" where
  "end_span sp t =
     t\<lparr>active_spans := remove1 (sp_context sp) (active_spans t),
       span_queue := enqueue sp (span_queue t)\<rparr>"

datatype tel_event =
    StartSpan span_context
  | EndSpan span
  | FlushSpans bool
  | FlushLogs bool

fun tel_step :: "telemetry \<Rightarrow> tel_event \<Rightarrow> telemetry" where
  "tel_step t (StartSpan c) = start_span c t"
| "tel_step t (EndSpan sp) = end_span sp t"
| "tel_step t (FlushSpans ok) = t\<lparr>span_queue := flush ok (span_queue t)\<rparr>"
| "tel_step t (FlushLogs ok) = t\<lparr>log_queue := flush ok (log_queue t)\<rparr>"

fun tel_run :: "tel_event list \<Rightarrow> telemetry \<Rightarrow> telemetry" where
  "tel_run [] t = t"
| "tel_run (ev # evs) t = tel_run evs (tel_step t ev)"

subsection \<open>The instrumented application\<close>

text \<open>
  Modelled from the spec: the instrumentation of a request (the instrumentor's code, not
  in the source), after the control flow of the specification's section 2. A span is
  opened for the request and is active while the handler runs; the instrumentation may
  open and end further spans under it while the response is sent (\<open>cs\<close>, of any
  number); then the request's span is ended. Every span is made by the trace provider
  and carries that provider's resource. The handler's log records stay with the
  module's logger: nothing in the module hands them to the log pipeline, at a request or
  while the module is loaded.
\<close>

record system =
  app :: state
  tel :: telemetry

definition system_init ::
  "(string \<Rightarrow> string option) \<Rightarrow> string \<Rightarrow> filesystem \<Rightarrow> nat \<Rightarrow> nat \<Rightarrow> system" where
  "system_init env file files cap n =
     \<lparr>app = module_init env file files, tel = new_telemetry cap n\<rparr>"

datatype sys_event =
    Serve route span_context "span_context list"
  | ChangeFs filesystem
  | ExportSpans bool
  | ExportLogs bool

definition made_span :: "state \<Rightarrow> span_context \<Rightarrow> span" where
  "made_span s c = \<lparr>sp_context = c, sp_resource = prov_resource (trace_provider (globs s))\<rparr>"

text \<open>What an event is for the application alone, and for the pipelines.\<close>

fun plain :: "sys_event \<Rightarrow> event list" where
  "plain (Serve r c cs) = [Request r]"
| "plain (ChangeFs files) = [FsChange files]"
| "plain (ExportSpans ok) = []"
| "plain (ExportLogs ok) = []"

fun telemetry_of :: "state \<Rightarrow> sys_event \<Rightarrow> tel_event list" where
  "telemetry_of s (Serve r c cs) =
     StartSpan c # concat (map (\<lambda>h. [StartSpan h, EndSpan (made_span s h)]) cs) @
     [EndSpan (made_span s c)]"
| "telemetry_of s (ChangeFs files) = []"
| "telemetry_of s (ExportSpans ok) = [FlushSpans ok]"
| "telemetry_of s (ExportLogs ok) = [FlushLogs ok]"

definition sys_step :: "system \<Rightarrow> sys_event \<Rightarrow> system" where
  "sys_step sy ev =
     \<lparr>app = foldl step (app sy) (plain ev),
      tel = tel_run (telemetry_of (app sy) ev) (tel sy)\<rparr>"

fun sys_answer :: "system \<Rightarrow> sys_event \<Rightarrow> http_response list" where
  "sys_answer sy (Serve r c cs) = [fst (handle_request r (app sy))]"
| "sys_answer sy (ChangeFs files) = []"
| "sys_answer sy (ExportSpans ok) = []"
| "sys_answer sy (ExportLogs ok) = []"

text \<open>The responses of a run of the instrumented system, and of a run of the
  application alone.\<close>

fun responses :: "sys_event list \<Rightarrow> system \<Rightarrow> http_response list" where
  "responses [] sy = []"
| "responses (ev # evs) sy = sys_answer sy ev @ responses evs (sys_step sy ev)"

fun answers :: "event list \<Rightarrow> state \<Rightarrow> http_response list" where
  "answers [] s = []"
| "answers (Request r # evs) s = fst (handle_request r s) # answers evs (step s (Request r))"
| "answers (FsChange files # evs) s = answers evs (step s (FsChange files))"

text \<open>The same run with the collector unreachable at every export.\<close>

fun collector_down :: "sys_event \<Rightarrow> sys_event" where
  "collector_down (ExportSpans ok) = ExportSpans False"
| "collector_down (ExportLogs ok) = ExportLogs False"
| "collector_down ev = ev"

section \<open>Properties of the module\<close>

subsection \<open>Auxiliary facts\<close>

lemma logger_log_WARNING:
  "logger_log WARNING m b h ex recs = recs @ [make_record WARNING m b h ex]"
  by (simp add: logger_log_def logger_level_def)

lemma logger_log_ERROR:
  "logger_log ERROR m b h ex recs = recs @ [make_record ERROR m b h ex]"
  by (simp add: logger_log_def logger_level_def WARNING_def ERROR_def)

lemma handler_globs: "globs (snd (handler r s)) = globs s"
  by (cases r)
    (simp_all add: handler_def api_root_def make_error_def true_div_def serve_frontend_def Let_def)

lemma handler_fs: "fs (snd (handler r s)) = fs s"
  by (cases r)
    (simp_all add: handler_def api_root_def make_error_def true_div_def serve_frontend_def Let_def)

lemma handle_request_snd: "snd (handle_request r s) = snd (handler r s)"
  by (simp add: handle_request_def split: prod.splits)

lemma handle_request_fst: "fst (handle_request r s) = respond (fs s) (fst (handler r s))"
  by (simp add: handle_request_def split: prod.splits) (metis handler_fs snd_conv)

lemma step_globs: "globs (step s ev) = globs s"
  by (cases ev) (simp_all add: handle_request_snd handler_globs)

lemma run_globs: "globs (run evs s) = globs s"
  unfolding run_def by (induction evs arbitrary: s) (simp_all add: step_globs)

lemma module_init_globs: "globs (module_init env file files) = module_globals env file"
  by (simp add: module_init_def Let_def)

lemma serve_frontend_absent:
  "fs s (frontend_file_path (globs s)) = None \<Longrightarrow>
   serve_frontend s =
     (Inr (PTuple [PDict [(''error'', PStr ''Frontend not found'')], PInt 404]),
      s\<lparr>logs := logs s @
         [\<lparr>levelno = ERROR,
           msg = ''Frontend file '' @ frontend_file_path (globs s) @ '' not found.'',
           extra = [], exc_info = None\<rparr>]\<rparr>)"
  by (simp add: serve_frontend_def path_exists_def logger_log_ERROR make_record_def)

lemma serve_frontend_present:
  "fs s (frontend_file_path (globs s)) = Some (RegularFile bs) \<Longrightarrow>
   handle_request Root s = (\<lparr>status = 200, content = FileBody bs\<rparr>, s)"
  by (simp add: handle_request_def handler_def serve_frontend_def path_exists_def respond_def)

subsection \<open>The three routes\<close>

text \<open>
  C3. Every request to \<^verbatim>\<open>GET /api/root\<close> is answered with status 200 and the fixed
  payload \<^verbatim>\<open>{"message": "Hello World. Log and Trace sent."}\<close>, and the handler adds
  exactly one log record, of warning severity, to the records produced so far; nothing
  else of the state changes.
\<close>

theorem api_root_response:
  "handle_request ApiRoot s =
     (\<lparr>status = 200,
       content = JsonBody (PDict [(''message'', PStr ''Hello World. Log and Trace sent.'')])\<rparr>,
      s\<lparr>logs := logs s @
         [\<lparr>levelno = WARNING, msg = ''API root endpoint (/api/root) was called'',
           extra = [(''client.ip'', ''127.0.0.1'')], exc_info = None\<rparr>]\<rparr>)"
  by (simp add: handle_request_def handler_def api_root_def respond_def
      logger_log_WARNING make_record_def)

text \<open>
  C2. Every request to \<^verbatim>\<open>GET /error\<close> is answered with status 200 (which is below
  500) and the fixed payload \<^verbatim>\<open>{"message": "Error log and trace span sent."}\<close>; the
  handler adds exactly one log record, of error severity, whose exception information is
  present (the division error being handled); the response is not the server-error
  response an escaping exception would give.
\<close>

theorem error_response:
  "handle_request Error s =
     (\<lparr>status = 200,
       content = JsonBody (PDict [(''message'', PStr ''Error log and trace span sent.'')])\<rparr>,
      s\<lparr>logs := logs s @
         [\<lparr>levelno = ERROR, msg = ''A simulated error occurred'',
           extra = [(''error.type'', ''ZeroDivisionError'')],
           exc_info = Some ZeroDivisionError\<rparr>]\<rparr>) \<and>
   status (fst (handle_request Error s)) < 500 \<and>
   fst (handle_request Error s) \<noteq> server_error \<and>
   exc_info (last (logs (snd (handle_request Error s)))) \<noteq> None"
  by (simp add: handle_request_def handler_def make_error_def true_div_def respond_def
      logger_log_ERROR make_record_def server_error_def)

text \<open>
  C9. The handler of \<^verbatim>\<open>GET /error\<close> always ends normally: \<^verbatim>\<open>1 / 0\<close> raises
  \<^verbatim>\<open>ZeroDivisionError\<close>, the handler clause catches it, and the function returns the
  dict of that clause; it neither falls through to return \<^verbatim>\<open>None\<close> nor lets an
  exception escape.
\<close>

theorem make_error_returns:
  "true_div 1 0 = Inl ZeroDivisionError \<and>
   fst (make_error s) = Inr (PDict [(''message'', PStr ''Error log and trace span sent.'')]) \<and>
   fst (make_error s) \<noteq> Inr PNone \<and>
   (\<forall>e. fst (make_error s) \<noteq> Inl e)"
  by (simp add: make_error_def true_div_def)

text \<open>
  C1, at a missing frontend file. The module is loaded from \<^verbatim>\<open>/app/main.py\<close> on an
  empty file system and \<^verbatim>\<open>GET /\<close> is requested. The handler returns the pair of the
  error dict and the number 404; the route has no status code of its own, so the answer
  has status 200, not 404, and its body is the encoding of that pair. The handler logs
  exactly one error (the other record is the one of the module's start).
\<close>

theorem serve_frontend_missing_is_200:
  "fst (handle_request Root (module_init Map.empty ''/app/main.py'' Map.empty)) =
     \<lparr>status = 200,
      content = JsonBody (PTuple [PDict [(''error'', PStr ''Frontend not found'')], PInt 404])\<rparr> \<and>
   status (fst (handle_request Root (module_init Map.empty ''/app/main.py'' Map.empty))) \<noteq> 404 \<and>
   logs (snd (handle_request Root (module_init Map.empty ''/app/main.py'' Map.empty))) =
     logs (module_init Map.empty ''/app/main.py'' Map.empty) @
       [\<lparr>levelno = ERROR, msg = ''Frontend file /app/frontend/index.html not found.'',
         extra = [], exc_info = None\<rparr>]"
  by (simp add: handle_request_def handler_def serve_frontend_def module_init_def
      module_globals_def path_exists_def respond_def logger_log_ERROR make_record_def
      dirname_def join_def join_step_def is_sep_def rstrip_sep_def Let_def)

subsection \<open>Configuration\<close>

text \<open>
  C6. The collector host is the value of \<^verbatim>\<open>ALLOY_HOST\<close> in the environment, or
  \<^verbatim>\<open>alloy\<close> when it is unset. For that host \<open>h\<close> the span exporter's endpoint is
  \<^verbatim>\<open>http://h:4319/v1/traces\<close> and the log exporter's is \<^verbatim>\<open>http://h:4319/v1/logs\<close>;
  the two differ, each provider's batch processor holds its own exporter, and nothing
  else of the environment, nor the module's location, has any influence on the exporters.
\<close>

theorem collector_endpoints:
  "alloy_host (module_globals env file) =
     (case env ''ALLOY_HOST'' of None \<Rightarrow> ''alloy'' | Some h \<Rightarrow> h) \<and>
   endpoint (trace_exporter (module_globals env file)) =
     ''http://'' @ alloy_host (module_globals env file) @ '':4319/v1/traces'' \<and>
   endpoint (log_exporter (module_globals env file)) =
     ''http://'' @ alloy_host (module_globals env file) @ '':4319/v1/logs'' \<and>
   endpoint (trace_exporter (module_globals env file)) \<noteq>
     endpoint (log_exporter (module_globals env file)) \<and>
   processors (trace_provider (module_globals env file)) =
     [trace_exporter (module_globals env file)] \<and>
   processors (logger_provider (module_globals env file)) =
     [log_exporter (module_globals env file)] \<and>
   trace_exporter (module_globals env file) =
     trace_exporter (module_globals (\<lambda>k. if k = ''ALLOY_HOST'' then env k else None) file') \<and>
   log_exporter (module_globals env file) =
     log_exporter (module_globals (\<lambda>k. if k = ''ALLOY_HOST'' then env k else None) file')"
  by (simp add: module_globals_def Let_def span_endpoint_def log_endpoint_def getenv_def
      add_processor_def)

text \<open>
  The resource of both providers. One resource, with the service name and the
  environment as its attributes, is built when the module is loaded and given to both
  providers; whatever requests and file-system changes follow, the module's resource,
  the trace provider's and the logger provider's are that same resource.
\<close>

lemma shared_resource:
  "g_resource (globs (run evs (module_init env file files))) = the_resource \<and>
   prov_resource (trace_provider (globs (run evs (module_init env file files)))) = the_resource \<and>
   prov_resource (logger_provider (globs (run evs (module_init env file files)))) = the_resource \<and>
   attributes the_resource =
     [(''service.name'', ''fastapi-backend''), (''environment'', ''local-dev'')]"
  by (simp add: run_globs module_init_globs module_globals_def Let_def add_processor_def
      the_resource_def)

text \<open>
  C10. No handler changes a module-level value: after \<^verbatim>\<open>api_root\<close>,
  \<^verbatim>\<open>make_error\<close> or \<^verbatim>\<open>serve_frontend\<close> the globals (frontend path, resource, both
  providers, both exporters) are what they were before. What \<^verbatim>\<open>serve_frontend\<close>
  returns is decided by the file system at the time of the request: it is the same
  whatever the file system was when the module started.
\<close>

theorem handlers_keep_globals:
  "globs (snd (api_root s)) = globs s \<and>
   globs (snd (make_error s)) = globs s \<and>
   globs (snd (serve_frontend s)) = globs s \<and>
   fst (serve_frontend (s\<lparr>fs := files\<rparr>)) =
     (if path_exists files (frontend_file_path (globs s))
      then Inr (PFileResponse (frontend_file_path (globs s)))
      else Inr (PTuple [PDict [(''error'', PStr ''Frontend not found'')], PInt 404])) \<and>
   fst (serve_frontend ((module_init env file files0)\<lparr>fs := files\<rparr>)) =
     fst (serve_frontend ((module_init env file files1)\<lparr>fs := files\<rparr>))"
  by (simp add: api_root_def make_error_def true_div_def serve_frontend_def Let_def
      module_init_def)

section \<open>Properties of the telemetry pipelines\<close>

subsection \<open>Auxiliary facts on subsequences and queues\<close>

lemma subseq_app_right: "subseq xs (xs @ ys)"
  by (rule subseq_rev_drop_many) simp

lemma subseq_app_mono: "subseq a b \<Longrightarrow> subseq c d \<Longrightarrow> subseq (a @ c) (b @ d)"
  by (rule list_emb_append_mono)

lemma subseq_keeps_distinct: "subseq xs ys \<Longrightarrow> distinct ys \<Longrightarrow> distinct xs"
  by (auto simp: subseq_conv_nths intro: distinct_nthsI)

lemma subseq_drop: "subseq (drop n xs) xs"
  by (metis append_take_drop_id subseq_drop_many subseq_order.order_refl)

lemma offered_append: "offered (evs @ evs') = offered evs @ offered evs'"
  by (induction evs rule: offered.induct) simp_all

lemma held_enqueue: "subseq (held (enqueue x q)) (held q @ [x])"
proof (cases "length (pending q) < capacity q")
  case True
  then show ?thesis by (simp add: held_def enqueue_def)
next
  case False
  then show ?thesis by (simp add: enqueue_def subseq_app_right)
qed

lemma held_flush: "subseq (held (flush ok q)) (held q)"
proof (cases "pending q = []")
  case True
  then show ?thesis by (simp add: flush_def)
next
  case False
  show ?thesis
  proof (cases ok)
    case True
    with False show ?thesis by (simp add: held_def flush_def)
  next
    case no: False
    have "subseq (concat (exported q) @ drop (batch_size q) (pending q))
            (concat (exported q) @ pending q)"
      by (rule subseq_app_mono) (simp_all add: subseq_drop)
    with False no show ?thesis by (simp add: held_def flush_def)
  qed
qed

lemma held_queue_step: "subseq (held (queue_step q ev)) (held q @ offered [ev])"
  by (cases ev) (simp_all add: held_enqueue held_flush)

lemma held_queue_run: "subseq (held (queue_run evs q)) (held q @ offered evs)"
proof (induction evs rule: rev_induct)
  case Nil
  then show ?case by (simp add: queue_run_def)
next
  case (snoc ev evs)
  have "subseq (held (queue_step (queue_run evs q) ev)) (held (queue_run evs q) @ offered [ev])"
    by (rule held_queue_step)
  also have "subseq (held (queue_run evs q) @ offered [ev]) ((held q @ offered evs) @ offered [ev])"
    using snoc.IH by (intro subseq_app_mono) simp_all
  finally show ?case by (simp add: queue_run_def offered_append del: offered.simps)
qed

lemma exported_subseq_held: "subseq (concat (exported q)) (held q)"
  by (simp add: held_def subseq_app_right)

lemma exported_enqueue: "exported (enqueue x q) = exported q"
  by (simp add: enqueue_def)

subsection \<open>Batch export\<close>

text \<open>
  C8. For a batch queue (of spans or of log records alike) and every sequence of offers
  and flushes, with the collector reachable or not at each flush: the records exported,
  in the order of their export, are a subsequence of the records offered, in the order
  they were offered. So records leave in the order they were appended, and when the
  offered records are pairwise different no record is exported twice, neither within
  one flush nor across flushes.
\<close>

theorem batch_export_at_most_once:
  "subseq (concat (exported (queue_run evs (new_queue cap n)))) (offered evs) \<and>
   (distinct (offered evs) \<longrightarrow> distinct (concat (exported (queue_run evs (new_queue cap n)))))"
proof -
  have "subseq (held (queue_run evs (new_queue cap n)))
          (held (new_queue cap n :: 'a batch_queue) @ offered evs)"
    by (rule held_queue_run)
  then have "subseq (held (queue_run evs (new_queue cap n))) (offered evs)"
    by (simp add: held_def new_queue_def)
  then have "subseq (concat (exported (queue_run evs (new_queue cap n)))) (offered evs)"
    using exported_subseq_held subseq_order.order_trans by blast
  then show ?thesis using subseq_keeps_distinct by blast
qed

theorem batch_export_at_most_once_witness:
  "distinct (offered [Offer (1::nat), Offer 2, Offer 3, Flush True, Offer 4, Flush False,
                      Offer 5, Flush True, Flush True]) \<and>
   exported (queue_run [Offer (1::nat), Offer 2, Offer 3, Flush True, Offer 4, Flush False,
                        Offer 5, Flush True, Flush True] (new_queue 3 2)) = [[1, 2], [5]] \<and>
   distinct (concat (exported (queue_run [Offer (1::nat), Offer 2, Offer 3, Flush True, Offer 4,
                        Flush False, Offer 5, Flush True, Flush True] (new_queue 3 2))))"
proof -
  have d: "distinct (offered [Offer (1::nat), Offer 2, Offer 3, Flush True, Offer 4, Flush False,
                              Offer 5, Flush True, Flush True])"
    by simp
  have e: "exported (queue_run [Offer (1::nat), Offer 2, Offer 3, Flush True, Offer 4, Flush False,
                        Offer 5, Flush True, Flush True] (new_queue 3 2)) = [[1, 2], [5]]"
    by (simp add: queue_run_def new_queue_def enqueue_def flush_def)
  from d e show ?thesis
    using batch_export_at_most_once
      [of "[Offer (1::nat), Offer 2, Offer 3, Flush True, Offer 4, Flush False,
            Offer 5, Flush True, Flush True]" 3 2]
    by blast
qed

subsection \<open>Auxiliary facts on the pipelines\<close>

lemma tel_run_append: "tel_run (evs @ evs') t = tel_run evs' (tel_run evs t)"
  by (induction evs arbitrary: t) simp_all

lemma start_span_queues:
  "span_queue (start_span c t) = span_queue t \<and> log_queue (start_span c t) = log_queue t"
  by (simp add: start_span_def)

lemma end_span_exported:
  "exported (log_queue (end_span sp t)) = exported (log_queue t) \<and>
   exported (span_queue (end_span sp t)) = exported (span_queue t)"
  by (simp add: end_span_def exported_enqueue)

lemma children_exported:
  "exported (log_queue (tel_run (concat (map (\<lambda>h. [StartSpan h, EndSpan (f h)]) cs)) t)) =
     exported (log_queue t) \<and>
   exported (span_queue (tel_run (concat (map (\<lambda>h. [StartSpan h, EndSpan (f h)]) cs)) t)) =
     exported (span_queue t)"
  by (induction cs arbitrary: t) (simp_all add: end_span_exported start_span_queues)

lemma serve_exported:
  "exported (log_queue (tel (sys_step sy (Serve r c cs)))) = exported (log_queue (tel sy)) \<and>
   exported (span_queue (tel (sys_step sy (Serve r c cs)))) = exported (span_queue (tel sy))"
  by (simp add: sys_step_def tel_run_append end_span_exported children_exported
      start_span_queues)

lemma answers_append: "answers (evs @ evs') s = answers evs s @ answers evs' (foldl step s evs)"
  by (induction evs s rule: answers.induct) simp_all

lemma sys_answer_plain: "sys_answer sy ev = answers (plain ev) (app sy)"
  by (cases ev) simp_all

lemma app_sys_step: "app (sys_step sy ev) = foldl step (app sy) (plain ev)"
  by (simp add: sys_step_def)

lemma responses_plain: "responses evs sy = answers (concat (map plain evs)) (app sy)"
  by (induction evs arbitrary: sy) (simp_all add: answers_append sys_answer_plain app_sys_step)

lemma plain_collector_down: "plain (collector_down ev) = plain ev"
  by (cases ev) simp_all

lemma init_globs:
  "globs (module_init Map.empty ''/app/main.py'' Map.empty) =
     module_globals Map.empty ''/app/main.py''"
  by (rule module_init_globs)

subsection \<open>Log records and the request's span\<close>

text \<open>
  C5, at a request to \<^verbatim>\<open>GET /api/root\<close>. The module is loaded from \<^verbatim>\<open>/app/main.py\<close>
  and the request is served under the span with trace identifier 7 and span
  identifier 9, which is active while the handler logs (the comment at line 85 says the
  record is correlated with a trace identifier). The record the handler produces is the
  warning of the standard logger, with its message and the one extra attribute and no
  identifier of any span; it is the same record under any other span. The log pipeline
  has received nothing, although the request's span reached the span queue with its
  identifiers.
\<close>

theorem log_record_without_span_ids:
  "logs (app (sys_step (system_init Map.empty ''/app/main.py'' Map.empty 2048 512)
      (Serve ApiRoot \<lparr>trace_id = 7, span_id = 9\<rparr> []))) =
     logs (app (system_init Map.empty ''/app/main.py'' Map.empty 2048 512)) @
       [\<lparr>levelno = WARNING, msg = ''API root endpoint (/api/root) was called'',
         extra = [(''client.ip'', ''127.0.0.1'')], exc_info = None\<rparr>] \<and>
   logs (app (sys_step (system_init Map.empty ''/app/main.py'' Map.empty 2048 512)
      (Serve ApiRoot \<lparr>trace_id = 7, span_id = 9\<rparr> []))) =
     logs (app (sys_step (system_init Map.empty ''/app/main.py'' Map.empty 2048 512)
      (Serve ApiRoot \<lparr>trace_id = 1, span_id = 2\<rparr> []))) \<and>
   held (log_queue (tel (sys_step (system_init Map.empty ''/app/main.py'' Map.empty 2048 512)
      (Serve ApiRoot \<lparr>trace_id = 7, span_id = 9\<rparr> [])))) = [] \<and>
   map sp_context (pending (span_queue (tel (sys_step
      (system_init Map.empty ''/app/main.py'' Map.empty 2048 512)
      (Serve ApiRoot \<lparr>trace_id = 7, span_id = 9\<rparr> []))))) = [\<lparr>trace_id = 7, span_id = 9\<rparr>]"
  by (simp add: sys_step_def system_init_def new_telemetry_def new_queue_def held_def
      start_span_def end_span_def enqueue_def made_span_def
      handle_request_snd handler_def api_root_def logger_log_WARNING make_record_def)

subsection \<open>Resource attributes of what is emitted\<close>

text \<open>
  C7, at a request to \<^verbatim>\<open>GET /error\<close>. The module is loaded from \<^verbatim>\<open>/app/main.py\<close> and
  the request is served under one span. The span that reaches the span queue carries
  the shared resource (service name and environment), as the comment at lines 21 and 22
  says of both logs and traces. The log record of the handler does not: the log queue
  of the logger provider, which holds that resource, has received nothing, and the
  record the standard logger produced has the error type as its only attribute, with no
  service name and no environment.
\<close>

theorem log_record_without_resource:
  "map sp_resource (pending (span_queue (tel (sys_step
      (system_init Map.empty ''/app/main.py'' Map.empty 2048 512)
      (Serve Error \<lparr>trace_id = 7, span_id = 9\<rparr> []))))) = [the_resource] \<and>
   attributes the_resource =
     [(''service.name'', ''fastapi-backend''), (''environment'', ''local-dev'')] \<and>
   prov_resource (logger_provider (globs (app (sys_step
      (system_init Map.empty ''/app/main.py'' Map.empty 2048 512)
      (Serve Error \<lparr>trace_id = 7, span_id = 9\<rparr> []))))) = the_resource \<and>
   held (log_queue (tel (sys_step (system_init Map.empty ''/app/main.py'' Map.empty 2048 512)
      (Serve Error \<lparr>trace_id = 7, span_id = 9\<rparr> [])))) = [] \<and>
   last (logs (app (sys_step (system_init Map.empty ''/app/main.py'' Map.empty 2048 512)
      (Serve Error \<lparr>trace_id = 7, span_id = 9\<rparr> [])))) =
     \<lparr>levelno = ERROR, msg = ''A simulated error occurred'',
      extra = [(''error.type'', ''ZeroDivisionError'')],
      exc_info = Some ZeroDivisionError\<rparr> \<and>
   map_of (extra (last (logs (app (sys_step
      (system_init Map.empty ''/app/main.py'' Map.empty 2048 512)
      (Serve Error \<lparr>trace_id = 7, span_id = 9\<rparr> [])))))) ''service.name'' = None \<and>
   map_of (extra (last (logs (app (sys_step
      (system_init Map.empty ''/app/main.py'' Map.empty 2048 512)
      (Serve Error \<lparr>trace_id = 7, span_id = 9\<rparr> [])))))) ''environment'' = None"
  by (simp add: sys_step_def system_init_def new_telemetry_def new_queue_def held_def
      start_span_def end_span_def enqueue_def made_span_def init_globs handler_globs
      handle_request_snd handler_def make_error_def true_div_def logger_log_ERROR
      make_record_def module_globals_def add_processor_def the_resource_def Let_def)

subsection \<open>Export and the request path\<close>

text \<open>
  C4. In every run of the instrumented system the responses are those of the application
  alone, so they are the same when the collector is unreachable at every export: an
  export failure raises nothing into a request and changes neither a status code nor a
  body. Serving a request exports nothing (it only enqueues), and an export, whether it
  succeeds or fails, leaves the application's state as it was.
\<close>

theorem export_off_request_path:
  "responses evs sy = answers (concat (map plain evs)) (app sy) \<and>
   responses (map collector_down evs) sy = responses evs sy \<and>
   exported (span_queue (tel (sys_step sy (Serve r c cs)))) = exported (span_queue (tel sy)) \<and>
   exported (log_queue (tel (sys_step sy (Serve r c cs)))) = exported (log_queue (tel sy)) \<and>
   app (sys_step sy (ExportSpans ok)) = app sy \<and>
   app (sys_step sy (ExportLogs ok)) = app sy"
proof -
  have "concat (map plain (map collector_down evs)) = concat (map plain evs)"
    by (induction evs) (simp_all add: plain_collector_down)
  then show ?thesis
    by (simp add: responses_plain serve_exported app_sys_step)
qed

end
